theory Spec2Isabelle
  imports Complex_Main
begin

section \<open>JavaScript values, errors and results\<close>

text \<open>
  The mobile client is TypeScript that runs as JavaScript. Numbers that the code only
  stores and compares (coordinates, configuration weights) are modelled as rationals:
  every finite double is a rational, and the code under study does no arithmetic on them.
  Timestamps are integer milliseconds since the epoch, as \<^verbatim>\<open>location.timestamp\<close> and
  \<^verbatim>\<open>Date.now()\<close> are.
\<close>

type_synonym number = rat

text \<open>
  Everything that can be thrown or rejected: the two errors the JavaScript runtime raises
  itself, \<^verbatim>\<open>new Error(msg)\<close> of the source, and a failure reported by a
  collaborator (the position service, the database client, the notification scheduler).
\<close>

datatype js_error =
    TypeError
  | RangeError
  | Error string
  | External string

text \<open>
  Untyped JavaScript values, used where the source reads properties without a matching
  declared type (the \<^verbatim>\<open>data?: any\<close> payload of a notification, and the property
  reads on the value returned by \<^verbatim>\<open>getCurrentLocation\<close>).
\<close>

datatype js_value =
    Undefined
  | Null
  | Num number
  | Str string
  | Obj "(string \<times> js_value) list"

text \<open>
  Property read \<^verbatim>\<open>v.k\<close>: a read on \<^verbatim>\<open>undefined\<close> or \<^verbatim>\<open>null\<close> throws a
  TypeError, a missing property of an object reads as \<^verbatim>\<open>undefined\<close>.
\<close>

fun js_get :: "js_value \<Rightarrow> string \<Rightarrow> js_error + js_value" where
  "js_get Undefined k = Inl TypeError"
| "js_get Null k = Inl TypeError"
| "js_get (Obj fs) k = Inr (case map_of fs k of None \<Rightarrow> Undefined | Some v \<Rightarrow> v)"
| "js_get (Num n) k = Inr Undefined"
| "js_get (Str s) k = Inr Undefined"

text \<open>Object spread \<^verbatim>\<open>{...a, k1: v1, ...}\<close>: later properties override earlier ones.\<close>

fun js_spread :: "js_value \<Rightarrow> (string \<times> js_value) list" where
  "js_spread (Obj fs) = fs"
| "js_spread v = []"

definition js_object :: "js_value \<Rightarrow> (string \<times> js_value) list \<Rightarrow> js_value" where
  "js_object spread fs =
     Obj (filter (\<lambda>kv. fst kv \<notin> set (map fst fs)) (js_spread spread) @ fs)"

section \<open>Configuration: safety-score weights\<close>

text \<open>
  \<^verbatim>\<open>complete_project_overview.md\<close>, the default row of \<^verbatim>\<open>system_settings\<close>:
  \<^verbatim>\<open>('tourist_safety_score_weights', '{"location_risk": 0.3, "weather": 0.2,
  "group_size": 0.2, "time_of_day": 0.15, "route_deviation": 0.15}', 'object', ...)\<close>.
  The setting is a JSON text; each decimal literal denotes the rational it spells.
\<close>

definition tourist_safety_score_weights :: "(string \<times> number) list" where
  "tourist_safety_score_weights =
     [(''location_risk'', 3 / 10),
      (''weather'', 2 / 10),
      (''group_size'', 2 / 10),
      (''time_of_day'', 15 / 100),
      (''route_deviation'', 15 / 100)]"

section \<open>Locations\<close>

text \<open>
  \<^verbatim>\<open>LocationData\<close> of \<^verbatim>\<open>services/location.ts\<close>: latitude, longitude and three optional
  numbers. The \<^verbatim>\<open>coords\<close> object of an expo \<^verbatim>\<open>LocationObject\<close> has the same five
  properties (there \<^verbatim>\<open>number | null\<close>), so one record serves for both; \<open>None\<close> stands
  for \<^verbatim>\<open>null\<close> and for \<^verbatim>\<open>undefined\<close>.
\<close>

record LocationData =
  latitude :: number
  longitude :: number
  altitude :: "number option"
  accuracy :: "number option"
  speed :: "number option"

record LocationObject =
  coords :: LocationData
  timestamp :: int

text \<open>\<^verbatim>\<open>x || undefined\<close> on \<^verbatim>\<open>number | null\<close>: null and 0 both become undefined.\<close>

definition or_undefined :: "number option \<Rightarrow> number option" where
  "or_undefined x = (case x of None \<Rightarrow> None | Some n \<Rightarrow> if n = 0 then None else Some n)"

text \<open>
  \<^verbatim>\<open>getCurrentLocation\<close> of \<^verbatim>\<open>services/location.ts\<close>. Its argument is the outcome of
  \<^verbatim>\<open>Location.getCurrentPositionAsync\<close>; a rejection is caught, logged, and answered
  with \<^verbatim>\<open>null\<close>. The result is a flat object: it has no \<^verbatim>\<open>coords\<close> property.
\<close>

definition getCurrentLocation :: "js_error + LocationObject \<Rightarrow> LocationData option" where
  "getCurrentLocation position =
     (case position of
        Inr location \<Rightarrow>
          Some \<lparr> latitude = latitude (coords location),
                 longitude = longitude (coords location),
                 altitude = or_undefined (altitude (coords location)),
                 accuracy = or_undefined (accuracy (coords location)),
                 speed = or_undefined (speed (coords location)) \<rparr>
      | Inl error \<Rightarrow> None)"

subsection \<open>The tracking service's cache (\<^verbatim>\<open>services/locationTracking.ts\<close>)\<close>

record LocationTrackingState =
  isTracking :: bool
  touristId :: "string option"
  lastLocation :: "LocationObject option"

definition trackingState :: LocationTrackingState where
  "trackingState = \<lparr> isTracking = False, touristId = None, lastLocation = None \<rparr>"

text \<open>
  \<^verbatim>\<open>getCurrentLocation\<close> of \<^verbatim>\<open>services/locationTracking.ts\<close> (the second function of
  that name in the repository). The result is the value the returned promise settles
  with: \<open>Inr v\<close> when it resolves with \<open>v\<close>, \<open>Inl e\<close> when it rejects.
\<close>

definition tracking_getCurrentLocation ::
  "js_error + LocationObject \<Rightarrow> LocationTrackingState \<Rightarrow>
   (js_error + LocationObject option) \<times> LocationTrackingState" where
  "tracking_getCurrentLocation position s =
     (case position of
        Inr location \<Rightarrow> (Inr (Some location), s\<lparr> lastLocation := Some location \<rparr>)
      | Inl error \<Rightarrow> (Inr (lastLocation s), s))"

definition getLastKnownLocation :: "LocationTrackingState \<Rightarrow> LocationObject option" where
  "getLastKnownLocation s = lastLocation s"

section \<open>The backend tables and the outside world\<close>

text \<open>
  Rows of the tables the mobile services write. Property names are those of the source
  objects; a prefix is added where two tables share a name (\<open>tourist_id\<close>,
  \<open>latitude\<close>, \<open>status\<close>, ...). String-literal union types are datatypes.
\<close>

record LocationLog =
  log_tourist_id :: string
  log_latitude :: number
  log_longitude :: number
  log_altitude :: "number option"
  log_accuracy :: "number option"
  log_speed :: "number option"
  battery_level :: "number option"
  network_type :: "string option"
  log_timestamp :: int

record EmergencyContact =
  contact_name :: string
  contact_phone :: string
  relationship :: string

record Tourist =
  tourist_id :: string
  name :: string
  phone :: string
  email :: string
  nationality :: string
  passport_number :: "string option"
  aadhaar_last_4 :: "string option"
  entry_point :: "string option"
  visit_purpose :: "string option"
  planned_exit_date :: "string option"
  medical_conditions :: "string option"
  blood_group :: "string option"
  emergency_contact_1 :: "EmergencyContact option"
  emergency_contact_2 :: "EmergencyContact option"
  safety_score :: int
  risk_category :: string
  tourist_status :: string

datatype alert_type = Panic | Medical | Security | Natural_disaster
datatype severity = Sev_critical | Sev_high | Sev_medium | Sev_low
datatype alert_status = Active | Acknowledged | Resolved

text \<open>\<^verbatim>\<open>EmergencyAlert\<close> of \<^verbatim>\<open>services/emergency.ts\<close>, a row of \<^verbatim>\<open>alerts\<close>.\<close>

record EmergencyAlert =
  alert_id :: "nat option"
  alert_tourist_id :: string
  alert_kind :: alert_type
  alert_latitude :: "number option"
  alert_longitude :: "number option"
  alert_title :: string
  alert_message :: string
  alert_severity :: severity
  alert_priority :: int
  status :: alert_status
  resolved_at :: "int option"
  resolution_notes :: "string option"

datatype notification_type = Safety_alert | Geofence | Hazard | Weather | Emergency | System
datatype priority = Pri_low | Pri_normal | Pri_high | Pri_critical
datatype notification_status = Pending | Sent | Failed | Read

text \<open>\<^verbatim>\<open>NotificationData\<close> of \<^verbatim>\<open>services/notifications.ts\<close>, a row of \<^verbatim>\<open>notifications\<close>.\<close>

record NotificationData =
  notif_id :: "nat option"
  notif_tourist_id :: string
  notif_type :: notification_type
  notif_title :: string
  notif_message :: string
  notif_priority :: priority
  notif_data :: js_value
  scheduled_for :: "string option"
  sent_at :: "int option"
  notif_status :: notification_status

record Communication =
  comm_tourist_id :: string
  comm_alert_id :: "nat option"
  communication_type :: string
  recipient_identifier :: string
  message_content :: string
  comm_status :: string

text \<open>
  \<^verbatim>\<open>Geofence\<close> and \<^verbatim>\<open>Hazard\<close> as the map screen declares them, with the column the
  queries of \<^verbatim>\<open>checkForHazards\<close> filter on (\<^verbatim>\<open>active\<close>, \<^verbatim>\<open>status\<close>).
\<close>

record Geofence =
  geofence_id :: nat
  geofence_name :: string
  geofence_type :: string
  center_lat :: number
  center_lng :: number
  risk_level :: int
  active :: bool

record Hazard =
  hazard_id :: nat
  hazard_title :: string
  hazard_type :: string
  hazard_center_lat :: number
  hazard_center_lng :: number
  radius_km :: number
  hazard_severity :: string
  hazard_status :: string

text \<open>A local notification handed to \<^verbatim>\<open>Notifications.scheduleNotificationAsync\<close>.\<close>

datatype android_priority = Android_MAX | Android_HIGH | Android_DEFAULT | Android_LOW

record LocalNotification =
  notification_identifier :: string
  content_title :: string
  content_body :: string
  content_sound :: bool
  content_priority :: android_priority
  categoryIdentifier :: "string option"
  content_data :: js_value

text \<open>
  The state the services act on: the tables, the local notifications scheduled on the
  device, the module-level \<^verbatim>\<open>trackingState\<close> of the tracking service, and the
  console.
\<close>

record world =
  tourists :: "Tourist list"
  location_logs :: "LocationLog list"
  alerts :: "EmergencyAlert list"
  notifications :: "NotificationData list"
  communications :: "Communication list"
  geofences :: "Geofence list"
  hazards :: "Hazard list"
  local_notifications :: "LocalNotification list"
  tracking :: LocationTrackingState
  console :: "string list"

definition world0 :: world where
  "world0 = \<lparr> tourists = [], location_logs = [], alerts = [], notifications = [],
              communications = [], geofences = [], hazards = [],
              local_notifications = [], tracking = trackingState, console = [] \<rparr>"

text \<open>
  What one call of a service function meets outside the code: the outcome of the
  position request, the error (if any) the database client reports for an operation on a
  table, the clock, the outcome of scheduling a local notification, the failure (if
  any) of another expo call by its name, the identifier the database gives a new tourist,
  and JavaScript's number formatting, which is not modelled.
\<close>

datatype db_op = Insert | Select | Update

record env =
  position :: "js_error + LocationObject"
  db_error :: "string \<Rightarrow> db_op \<Rightarrow> js_error option"
  now :: int
  schedule :: "js_error + string"
  api_error :: "string \<Rightarrow> js_error option"
  new_uuid :: string
  number_toString :: "number \<Rightarrow> string"
  number_toFixed6 :: "number \<Rightarrow> string"

definition console_log :: "string \<Rightarrow> world \<Rightarrow> world" where
  "console_log line w = w\<lparr> console := console w @ [line] \<rparr>"

definition db_select :: "env \<Rightarrow> string \<Rightarrow> 'a list \<Rightarrow> js_error + 'a list" where
  "db_select e table rows =
     (case db_error e table Select of Some error \<Rightarrow> Inl error | None \<Rightarrow> Inr rows)"

text \<open>\<^verbatim>\<open>.single()\<close>: exactly one row, otherwise the client reports an error.\<close>

definition select_single :: "js_error + 'a list \<Rightarrow> js_error + 'a" where
  "select_single r =
     (case r of
        Inl error \<Rightarrow> Inl error
      | Inr rows \<Rightarrow> (case rows of [row] \<Rightarrow> Inr row | _ \<Rightarrow> Inl (External ''PGRST116'')))"

text \<open>The next value of a serial \<^verbatim>\<open>id\<close> column.\<close>

definition fresh_id :: "nat option list \<Rightarrow> nat" where
  "fresh_id ids = Suc (foldr max (map (\<lambda>i. case i of None \<Rightarrow> 0 | Some n \<Rightarrow> n) ids) 0)"

text \<open>
  \<^verbatim>\<open>new Date(t).toISOString()\<close> throws a RangeError outside the range of valid time
  values. An ISO-8601 text is represented by the instant it denotes.
\<close>

definition toISOString :: "int \<Rightarrow> js_error + int" where
  "toISOString t = (if \<bar>t\<bar> \<le> 8640000000000000 then Inr t else Inl RangeError)"

section \<open>Processing a location fix (\<^verbatim>\<open>services/locationTracking.ts\<close>)\<close>

definition getBatteryLevel :: "number option" where
  "getBatteryLevel = None"

definition getNetworkType :: "string option" where
  "getNetworkType = None"

definition logLocationToDatabase :: "env \<Rightarrow> string \<Rightarrow> LocationObject \<Rightarrow> world \<Rightarrow> world" where
  "logLocationToDatabase e tid location w =
     (case toISOString (timestamp location) of
        Inl error \<Rightarrow> console_log ''Location logging error:'' w
      | Inr isoTime \<Rightarrow>
          (let locationData =
                 \<lparr> log_tourist_id = tid,
                   log_latitude = latitude (coords location),
                   log_longitude = longitude (coords location),
                   log_altitude = altitude (coords location),
                   log_accuracy = accuracy (coords location),
                   log_speed = speed (coords location),
                   battery_level = getBatteryLevel,
                   network_type = getNetworkType,
                   log_timestamp = isoTime \<rparr>
           in case db_error e ''location_logs'' Insert of
                Some error \<Rightarrow> console_log ''Location logging error:'' w
              | None \<Rightarrow> w\<lparr> location_logs := location_logs w @ [locationData] \<rparr>))"

text \<open>
  \<^verbatim>\<open>checkForHazards\<close>: the two queries are made and their rows are bound, and then,
  in the words of the source, ``In a real implementation, you would use PostGIS functions
  to check if the current location intersects with any geofences or hazards. For now,
  we'll just log that the check was performed''.
\<close>

definition checkForHazards :: "env \<Rightarrow> string \<Rightarrow> LocationObject \<Rightarrow> world \<Rightarrow> world" where
  "checkForHazards e tid location w =
     (case db_select e ''geofences'' (filter active (geofences w)) of
        Inl geofenceError \<Rightarrow> console_log ''Geofence check error:'' w
      | Inr geofenceRows \<Rightarrow>
          (case db_select e ''hazards''
                  (filter (\<lambda>h. hazard_status h = ''active'') (hazards w)) of
             Inl hazardError \<Rightarrow> console_log ''Hazard check error:'' w
           | Inr hazardRows \<Rightarrow>
               console_log (''Hazard check completed for location: ''
                      @ number_toString e (latitude (coords location)) @ '', ''
                      @ number_toString e (longitude (coords location))) w))"

text \<open>
  The callback \<^verbatim>\<open>startLocationTracking(touristId)\<close> registers with
  \<^verbatim>\<open>Location.watchPositionAsync\<close>; it runs once for every foreground fix.
\<close>

definition watchPosition_callback :: "env \<Rightarrow> string \<Rightarrow> LocationObject \<Rightarrow> world \<Rightarrow> world" where
  "watchPosition_callback e tid location w =
     checkForHazards e tid location
       (logLocationToDatabase e tid location
          (w\<lparr> tracking := (tracking w)\<lparr> lastLocation := Some location \<rparr> \<rparr>))"

text \<open>
  The background task \<^verbatim>\<open>background-location-task\<close>, called with an error or with the
  batch of locations; only \<^verbatim>\<open>locations[0]\<close> is processed, and only while
  \<^verbatim>\<open>trackingState.touristId\<close> is truthy (neither null nor the empty string).
\<close>

definition background_location_task ::
  "env \<Rightarrow> js_error option \<Rightarrow> LocationObject list option \<Rightarrow> world \<Rightarrow> world" where
  "background_location_task e error data w =
     (case error of
        Some err \<Rightarrow> console_log ''Background location task error:'' w
      | None \<Rightarrow>
          (case data of
             None \<Rightarrow> w
           | Some locations \<Rightarrow>
               (case locations of
                  [] \<Rightarrow> w
                | location # rest \<Rightarrow>
                    (case touristId (tracking w) of
                       None \<Rightarrow> w
                     | Some tid \<Rightarrow>
                         if tid = [] then w
                         else checkForHazards e tid location
                                (logLocationToDatabase e tid location w)))))"

definition startLocationTracking :: "env \<Rightarrow> string \<Rightarrow> world \<Rightarrow> bool \<times> world" where
  "startLocationTracking e tid w =
     (if isTracking (tracking w) then (True, console_log ''Location tracking already active'' w)
      else
        (let w1 = w\<lparr> tracking := (tracking w)\<lparr> touristId := Some tid, isTracking := True \<rparr> \<rparr>
         in case api_error e ''startLocationUpdatesAsync'' of
              Some error \<Rightarrow>
                (False, console_log ''Start location tracking error:''
                          (w1\<lparr> tracking := (tracking w1)\<lparr> isTracking := False \<rparr> \<rparr>))
            | None \<Rightarrow>
                (case api_error e ''watchPositionAsync'' of
                   Some error \<Rightarrow>
                     (False, console_log ''Start location tracking error:''
                               (w1\<lparr> tracking := (tracking w1)\<lparr> isTracking := False \<rparr> \<rparr>))
                 | None \<Rightarrow> (True, console_log ''Location tracking started successfully'' w1))))"

definition stopLocationTracking :: "env \<Rightarrow> world \<Rightarrow> world" where
  "stopLocationTracking e w =
     (if \<not> isTracking (tracking w) then w
      else
        (case api_error e ''stopLocationUpdatesAsync'' of
           Some error \<Rightarrow> console_log ''Stop location tracking error:'' w
         | None \<Rightarrow>
             console_log ''Location tracking stopped''
               (w\<lparr> tracking := \<lparr> isTracking = False, touristId = None, lastLocation = None \<rparr> \<rparr>)))"

subsection \<open>The simpler watcher of \<^verbatim>\<open>services/location.ts\<close>\<close>

definition logLocation :: "env \<Rightarrow> string \<Rightarrow> LocationData \<Rightarrow> world \<Rightarrow> world" where
  "logLocation e tid locationData w =
     (case db_error e ''location_logs'' Insert of
        Some error \<Rightarrow> console_log ''Location logging error:'' w
      | None \<Rightarrow>
          w\<lparr> location_logs := location_logs w @
               [\<lparr> log_tourist_id = tid,
                  log_latitude = latitude locationData,
                  log_longitude = longitude locationData,
                  log_altitude = altitude locationData,
                  log_accuracy = accuracy locationData,
                  log_speed = speed locationData,
                  battery_level = None,
                  network_type = None,
                  log_timestamp = now e \<rparr>] \<rparr>)"

definition location_watch_callback :: "env \<Rightarrow> string \<Rightarrow> LocationObject \<Rightarrow> world \<Rightarrow> world" where
  "location_watch_callback e tid location w =
     logLocation e tid
       \<lparr> latitude = latitude (coords location),
         longitude = longitude (coords location),
         altitude = or_undefined (altitude (coords location)),
         accuracy = or_undefined (accuracy (coords location)),
         speed = or_undefined (speed (coords location)) \<rparr> w"

section \<open>Registration (\<^verbatim>\<open>RegisterScreen.handleRegister\<close>)\<close>

record RegistrationForm =
  form_name :: string
  form_phone :: string
  form_email :: string
  form_nationality :: string
  passportNumber :: string
  aadhaarLast4 :: string
  entryPoint :: string
  visitPurpose :: string
  plannedExitDate :: string
  medicalConditions :: string
  bloodGroup :: string
  emergencyContact1 :: EmergencyContact
  emergencyContact2 :: EmergencyContact

text \<open>\<^verbatim>\<open>String.prototype.trim\<close> on the ASCII white space characters.\<close>

definition is_whitespace :: "char \<Rightarrow> bool" where
  "is_whitespace c =
     (c = CHR '' '' \<or> c = CHR 0x09 \<or> c = CHR 0x0A \<or> c = CHR 0x0B \<or> c = CHR 0x0C \<or> c = CHR 0x0D)"

definition trim :: "string \<Rightarrow> string" where
  "trim s = rev (dropWhile is_whitespace (rev (dropWhile is_whitespace s)))"

definition validateStep1 :: "RegistrationForm \<Rightarrow> bool" where
  "validateStep1 f =
     (if trim (form_name f) = [] then False
      else if trim (form_phone f) = [] \<or> length (form_phone f) < 10 then False
      else if trim (form_email f) = [] \<or> CHR ''@'' \<notin> set (form_email f) then False
      else True)"

definition validateStep2 :: "RegistrationForm \<Rightarrow> bool" where
  "validateStep2 f =
     (if trim (contact_name (emergencyContact1 f)) = []
         \<or> trim (contact_phone (emergencyContact1 f)) = [] then False
      else True)"

text \<open>\<^verbatim>\<open>s || null\<close> on a string: the empty string becomes null.\<close>

definition or_null :: "string \<Rightarrow> string option" where
  "or_null s = (if s = [] then None else Some s)"

definition touristData :: "RegistrationForm \<Rightarrow> string \<Rightarrow> Tourist" where
  "touristData f uuid =
     \<lparr> tourist_id = uuid,
       name = form_name f,
       phone = form_phone f,
       email = form_email f,
       nationality = form_nationality f,
       passport_number = or_null (passportNumber f),
       aadhaar_last_4 = or_null (aadhaarLast4 f),
       entry_point = or_null (entryPoint f),
       visit_purpose = or_null (visitPurpose f),
       planned_exit_date = or_null (plannedExitDate f),
       medical_conditions = or_null (medicalConditions f),
       blood_group = or_null (bloodGroup f),
       emergency_contact_1 = Some (emergencyContact1 f),
       emergency_contact_2 =
         (if contact_name (emergencyContact2 f) \<noteq> [] \<and> contact_phone (emergencyContact2 f) \<noteq> []
          then Some (emergencyContact2 f) else None),
       safety_score = 50,
       risk_category = ''medium'',
       tourist_status = ''active'' \<rparr>"

text \<open>
  \<^verbatim>\<open>handleRegister\<close>: nothing happens unless both validations pass; the tourist row is
  inserted with the identifier the database assigns, and the initial location is logged
  when one was obtained. A failed insert is caught and logged.
\<close>

definition handleRegister :: "env \<Rightarrow> RegistrationForm \<Rightarrow> world \<Rightarrow> world" where
  "handleRegister e f w =
     (if \<not> validateStep1 f \<or> \<not> validateStep2 f then w
      else
        (let location = getCurrentLocation (position e)
         in case db_error e ''tourists'' Insert of
              Some error \<Rightarrow> console_log ''Registration error:'' w
            | None \<Rightarrow>
                (let row = touristData f (new_uuid e);
                     w1 = w\<lparr> tourists := tourists w @ [row] \<rparr>
                 in case location of
                      None \<Rightarrow> w1
                    | Some l \<Rightarrow>
                        (case db_error e ''location_logs'' Insert of
                           Some error \<Rightarrow> w1
                         | None \<Rightarrow>
                             w1\<lparr> location_logs := location_logs w1 @
                                    [\<lparr> log_tourist_id = tourist_id row,
                                       log_latitude = latitude l,
                                       log_longitude = longitude l,
                                       log_altitude = altitude l,
                                       log_accuracy = accuracy l,
                                       log_speed = speed l,
                                       battery_level = None,
                                       network_type = None,
                                       log_timestamp = now e \<rparr>] \<rparr>))))"

text \<open>The home screen keeps its own score, \<^verbatim>\<open>useState(75)\<close>; its setter is never called.\<close>

definition HomeScreen_safetyScore :: int where
  "HomeScreen_safetyScore = 75"

section \<open>Notifications (\<^verbatim>\<open>services/notifications.ts\<close>)\<close>

definition and_then :: "'e + 'a \<Rightarrow> ('a \<Rightarrow> 'e + 'b) \<Rightarrow> 'e + 'b" where
  "and_then m f = (case m of Inl error \<Rightarrow> Inl error | Inr x \<Rightarrow> f x)"

text \<open>\<^verbatim>\<open>Number.prototype.toString\<close> on a row identifier: its decimal digits.\<close>

function nat_toString :: "nat \<Rightarrow> string" where
  "nat_toString n =
     (if n < 10 then [''0123456789'' ! n]
      else nat_toString (n div 10) @ [''0123456789'' ! (n mod 10)])"
  by pat_completeness auto
termination
  by (relation "measure id") auto

declare nat_toString.simps [simp del]

definition opt_num :: "number option \<Rightarrow> js_value" where
  "opt_num x = (case x of None \<Rightarrow> Undefined | Some n \<Rightarrow> Num n)"

text \<open>
  The object \<^verbatim>\<open>getCurrentLocation\<close> of \<^verbatim>\<open>services/location.ts\<close> returns, as a
  JavaScript value: five own properties, none of them \<^verbatim>\<open>coords\<close>.
\<close>

definition LocationData_value :: "LocationData \<Rightarrow> js_value" where
  "LocationData_value l =
     Obj [(''latitude'', Num (latitude l)),
          (''longitude'', Num (longitude l)),
          (''altitude'', opt_num (altitude l)),
          (''accuracy'', opt_num (accuracy l)),
          (''speed'', opt_num (speed l))]"

definition location_value :: "LocationData option \<Rightarrow> js_value" where
  "location_value location = (case location of None \<Rightarrow> Null | Some l \<Rightarrow> LocationData_value l)"

fun truthy :: "js_value \<Rightarrow> bool" where
  "truthy Undefined = False"
| "truthy Null = False"
| "truthy (Num n) = (n \<noteq> 0)"
| "truthy (Str s) = (s \<noteq> [])"
| "truthy (Obj fs) = True"

fun priority_string :: "priority \<Rightarrow> string" where
  "priority_string Pri_low = ''low''"
| "priority_string Pri_normal = ''normal''"
| "priority_string Pri_high = ''high''"
| "priority_string Pri_critical = ''critical''"

fun notification_type_string :: "notification_type \<Rightarrow> string" where
  "notification_type_string Safety_alert = ''safety_alert''"
| "notification_type_string Geofence = ''geofence''"
| "notification_type_string Hazard = ''hazard''"
| "notification_type_string Weather = ''weather''"
| "notification_type_string Emergency = ''emergency''"
| "notification_type_string System = ''system''"

fun getNotificationPriority :: "priority \<Rightarrow> android_priority" where
  "getNotificationPriority Pri_critical = Android_MAX"
| "getNotificationPriority Pri_high = Android_HIGH"
| "getNotificationPriority Pri_normal = Android_DEFAULT"
| "getNotificationPriority Pri_low = Android_LOW"

fun getNotificationCategory :: "notification_type \<Rightarrow> string option" where
  "getNotificationCategory Emergency = Some ''emergency''"
| "getNotificationCategory Safety_alert = Some ''safety_alert''"
| "getNotificationCategory Geofence = Some ''safety_alert''"
| "getNotificationCategory Hazard = Some ''safety_alert''"
| "getNotificationCategory Weather = Some ''safety_alert''"
| "getNotificationCategory System = None"

text \<open>
  \<^verbatim>\<open>updateNotificationStatus(notificationId, status)\<close>: the rows whose \<^verbatim>\<open>id\<close> equals
  the given text get the status and \<^verbatim>\<open>sent_at\<close>; a database error is only logged.
\<close>

definition id_matches :: "nat option \<Rightarrow> string \<Rightarrow> bool" where
  "id_matches i s = (case i of None \<Rightarrow> False | Some n \<Rightarrow> nat_toString n = s)"

definition updateNotificationStatus ::
  "env \<Rightarrow> string \<Rightarrow> notification_status \<Rightarrow> world \<Rightarrow> world" where
  "updateNotificationStatus e notificationId st w =
     (case db_error e ''notifications'' Update of
        Some error \<Rightarrow> console_log ''Update notification status error:'' w
      | None \<Rightarrow>
          w\<lparr> notifications :=
               map (\<lambda>n. if id_matches (notif_id n) notificationId
                         then n\<lparr> notif_status := st, sent_at := Some (now e) \<rparr> else n)
                   (notifications w) \<rparr>)"

text \<open>
  \<^verbatim>\<open>sendLocalNotification\<close>. When scheduling succeeds, the status update is keyed by the
  identifier the scheduler returned (not by the row's \<^verbatim>\<open>id\<close>); when it fails, the
  row's own \<^verbatim>\<open>id\<close> is marked failed and the error is thrown again. The trigger
  (\<^verbatim>\<open>scheduled_for\<close>) is not modelled.
\<close>

definition sendLocalNotification ::
  "env \<Rightarrow> NotificationData \<Rightarrow> world \<Rightarrow> (js_error + string) \<times> world" where
  "sendLocalNotification e notificationData w =
     (case schedule e of
        Inr notificationId \<Rightarrow>
          (Inr notificationId,
           updateNotificationStatus e notificationId Sent
             (w\<lparr> local_notifications := local_notifications w @
                    [\<lparr> notification_identifier = notificationId,
                       content_title = notif_title notificationData,
                       content_body = notif_message notificationData,
                       content_sound = (notif_priority notificationData = Pri_critical
                                         \<or> notif_priority notificationData = Pri_high),
                       content_priority = getNotificationPriority (notif_priority notificationData),
                       categoryIdentifier = getNotificationCategory (notif_type notificationData),
                       content_data =
                         js_object (notif_data notificationData)
                           [(''notificationId'',
                               (case notif_id notificationData of
                                  None \<Rightarrow> Undefined | Some n \<Rightarrow> Num (of_nat n))),
                            (''priority'', Str (priority_string (notif_priority notificationData))),
                            (''type'', Str (notification_type_string (notif_type notificationData)))]
                     \<rparr>] \<rparr>))
      | Inl error \<Rightarrow>
          (Inl error,
           updateNotificationStatus e
             (case notif_id notificationData of None \<Rightarrow> [] | Some n \<Rightarrow> nat_toString n) Failed
             (console_log ''Send local notification error:'' w)))"

text \<open>
  \<^verbatim>\<open>createSafetyAlert\<close>. The module imports \<^verbatim>\<open>getCurrentLocation\<close> from
  \<^verbatim>\<open>./location\<close> and, when the result is not null, reads
  \<^verbatim>\<open>location.coords.latitude\<close> and \<^verbatim>\<open>location.coords.longitude\<close>. Every error
  raised inside the \<^verbatim>\<open>try\<close> block is logged and thrown again. There is no look-up of
  existing rows before the insert.
\<close>

definition location_coords :: "js_value \<Rightarrow> js_error + js_value" where
  "location_coords location =
     and_then (js_get location ''coords'') (\<lambda>c1.
     and_then (js_get c1 ''latitude'') (\<lambda>lat.
     and_then (js_get location ''coords'') (\<lambda>c2.
     and_then (js_get c2 ''longitude'') (\<lambda>lng.
       Inr (Obj [(''latitude'', lat), (''longitude'', lng)])))))"

definition createSafetyAlert ::
  "env \<Rightarrow> string \<Rightarrow> notification_type \<Rightarrow> string \<Rightarrow> string \<Rightarrow> priority \<Rightarrow> js_value \<Rightarrow> world \<Rightarrow>
   (js_error + NotificationData) \<times> world" where
  "createSafetyAlert e tid alertType title message prio additionalData w =
     (let location = location_value (getCurrentLocation (position e))
      in case (if truthy location then location_coords location else Inr Null) of
           Inl error \<Rightarrow> (Inl error, console_log ''Create safety alert error:'' w)
         | Inr loc \<Rightarrow>
             (let notificationData =
                    \<lparr> notif_id = None,
                      notif_tourist_id = tid,
                      notif_type = alertType,
                      notif_title = title,
                      notif_message = message,
                      notif_priority = prio,
                      notif_data =
                        js_object additionalData
                          [(''location'', loc), (''timestamp'', Num (of_int (now e)))],
                      scheduled_for = None,
                      sent_at = None,
                      notif_status = Pending \<rparr>
              in case db_error e ''notifications'' Insert of
                   Some error \<Rightarrow> (Inl error, console_log ''Create safety alert error:'' w)
                 | None \<Rightarrow>
                     (let data = notificationData
                                   \<lparr> notif_id := Some (fresh_id (map notif_id (notifications w))) \<rparr>;
                          w1 = w\<lparr> notifications := notifications w @ [data] \<rparr>
                      in case sendLocalNotification e data w1 of
                           (Inl error, w2) \<Rightarrow>
                             (Inl error, console_log ''Create safety alert error:'' w2)
                         | (Inr notificationId, w2) \<Rightarrow> (Inr data, w2))))"

datatype action = Entered | Exited

fun action_string :: "action \<Rightarrow> string" where
  "action_string Entered = ''entered''"
| "action_string Exited = ''exited''"

definition createGeofenceAlert ::
  "env \<Rightarrow> string \<Rightarrow> string \<Rightarrow> string \<Rightarrow> action \<Rightarrow> world \<Rightarrow> (js_error + NotificationData) \<times> world" where
  "createGeofenceAlert e tid geofenceName geofenceType act w =
     (let title = ''Geofence '' @ (if act = Entered then ''Entry'' else ''Exit'');
          message = ''You have '' @ action_string act @ '' '' @ geofenceName
                      @ '' ('' @ geofenceType @ '' zone)'';
          prio = (if geofenceType = ''restricted'' then Pri_high else Pri_normal)
      in createSafetyAlert e tid Geofence title message prio
           (Obj [(''geofenceName'', Str geofenceName),
                 (''geofenceType'', Str geofenceType),
                 (''action'', Str (action_string act))]) w)"

definition createHazardAlert ::
  "env \<Rightarrow> string \<Rightarrow> string \<Rightarrow> string \<Rightarrow> string \<Rightarrow> number \<Rightarrow> world \<Rightarrow>
   (js_error + NotificationData) \<times> world" where
  "createHazardAlert e tid hazardTitle hazardType sev distance w =
     (let title = ''Hazard Alert: '' @ hazardTitle;
          message = hazardType @ '' detected '' @ number_toString e distance
                      @ ''km from your location. Severity: '' @ sev;
          prio = (if sev = ''high'' then Pri_critical
                  else if sev = ''medium'' then Pri_high else Pri_normal)
      in createSafetyAlert e tid Hazard title message prio
           (Obj [(''hazardTitle'', Str hazardTitle),
                 (''hazardType'', Str hazardType),
                 (''severity'', Str sev),
                 (''distance'', Num distance)]) w)"

definition createWeatherAlert ::
  "env \<Rightarrow> string \<Rightarrow> string \<Rightarrow> string \<Rightarrow> string \<Rightarrow> world \<Rightarrow> (js_error + NotificationData) \<times> world" where
  "createWeatherAlert e tid weatherType sev description w =
     (let title = ''Weather Alert: '' @ weatherType;
          message = description;
          prio = (if sev = ''severe'' then Pri_high else Pri_normal)
      in createSafetyAlert e tid Weather title message prio
           (Obj [(''weatherType'', Str weatherType), (''severity'', Str sev)]) w)"

definition markNotificationAsRead :: "env \<Rightarrow> nat \<Rightarrow> world \<Rightarrow> bool \<times> world" where
  "markNotificationAsRead e notificationId w =
     (case db_error e ''notifications'' Update of
        Some error \<Rightarrow> (False, console_log ''Mark notification as read error:'' w)
      | None \<Rightarrow>
          (True,
           w\<lparr> notifications :=
                map (\<lambda>n. if notif_id n = Some notificationId then n\<lparr> notif_status := Read \<rparr> else n)
                    (notifications w) \<rparr>))"

section \<open>Emergency alerts (\<^verbatim>\<open>services/emergency.ts\<close>)\<close>

text \<open>
  Titles start with a pictograph, given here by its UTF-8 bytes. The \<^verbatim>\<open>default\<close>
  branches of the two switches cannot be reached from a value of the declared type.
\<close>

fun getAlertTitle :: "alert_type \<Rightarrow> string" where
  "getAlertTitle Panic = [CHR 0xF0, CHR 0x9F, CHR 0x9A, CHR 0xA8] @ '' EMERGENCY ALERT''"
| "getAlertTitle Medical = [CHR 0xF0, CHR 0x9F, CHR 0x8F, CHR 0xA5] @ '' MEDICAL EMERGENCY''"
| "getAlertTitle Security =
     [CHR 0xF0, CHR 0x9F, CHR 0x9B, CHR 0xA1, CHR 0xEF, CHR 0xB8, CHR 0x8F] @ '' SECURITY ALERT''"
| "getAlertTitle Natural_disaster =
     [CHR 0xF0, CHR 0x9F, CHR 0x8C, CHR 0xAA, CHR 0xEF, CHR 0xB8, CHR 0x8F]
       @ '' NATURAL DISASTER ALERT''"

text \<open>\<^verbatim>\<open>v.toFixed(6)\<close>: a method of numbers only.\<close>

definition toFixed6 :: "env \<Rightarrow> js_value \<Rightarrow> js_error + string" where
  "toFixed6 e v = (case v of Num n \<Rightarrow> Inr (number_toFixed6 e n) | _ \<Rightarrow> Inl TypeError)"

fun alert_sentence :: "alert_type \<Rightarrow> string" where
  "alert_sentence Panic =
     ''Tourist has triggered a panic alert and requires immediate assistance. ''"
| "alert_sentence Medical = ''Tourist requires immediate medical assistance. ''"
| "alert_sentence Security = ''Tourist is in a potentially dangerous security situation. ''"
| "alert_sentence Natural_disaster =
     ''Tourist is affected by a natural disaster and needs help. ''"

definition getAlertMessage :: "env \<Rightarrow> alert_type \<Rightarrow> js_value \<Rightarrow> js_value \<Rightarrow> js_error + string" where
  "getAlertMessage e ty lat lng =
     and_then (toFixed6 e lat) (\<lambda>a.
     and_then (toFixed6 e lng) (\<lambda>b.
       Inr (alert_sentence ty @ ''Location: '' @ a @ '', '' @ b)))"

definition num_of :: "js_value \<Rightarrow> number option" where
  "num_of v = (case v of Num n \<Rightarrow> Some n | _ \<Rightarrow> None)"

definition opt_string :: "env \<Rightarrow> number option \<Rightarrow> string" where
  "opt_string e x = (case x of None \<Rightarrow> ''undefined'' | Some n \<Rightarrow> number_toString e n)"

definition insert_communication :: "env \<Rightarrow> Communication \<Rightarrow> world \<Rightarrow> world" where
  "insert_communication e row w =
     (case db_error e ''communications'' Insert of
        Some error \<Rightarrow> w
      | None \<Rightarrow> w\<lparr> communications := communications w @ [row] \<rparr>)"

definition notifyEmergencyContacts :: "env \<Rightarrow> Tourist \<Rightarrow> EmergencyAlert \<Rightarrow> world \<Rightarrow> world" where
  "notifyEmergencyContacts e tourist alert w =
     (let contacts = (case emergency_contact_1 tourist of None \<Rightarrow> [] | Some c \<Rightarrow> [c])
                       @ (case emergency_contact_2 tourist of None \<Rightarrow> [] | Some c \<Rightarrow> [c])
      in foldl (\<lambda>w' contact.
                  insert_communication e
                    \<lparr> comm_tourist_id = tourist_id tourist,
                      comm_alert_id = alert_id alert,
                      communication_type = ''sms'',
                      recipient_identifier = contact_phone contact,
                      message_content =
                        ''EMERGENCY: '' @ name tourist
                          @ '' has triggered an emergency alert. Location: ''
                          @ opt_string e (alert_latitude alert) @ '', ''
                          @ opt_string e (alert_longitude alert)
                          @ ''. Please contact authorities immediately.'',
                      comm_status = ''sent'' \<rparr>
                    (console_log (''Notifying emergency contact: '' @ contact_name contact
                                    @ '' ('' @ contact_phone contact @ '')'') w'))
               w contacts)"

definition notifyAuthorities :: "env \<Rightarrow> EmergencyAlert \<Rightarrow> world \<Rightarrow> world" where
  "notifyAuthorities e alert w =
     (let w1 = console_log ''Notifying local authorities about emergency alert'' w
      in case schedule e of
           Inl error \<Rightarrow> console_log ''Authority notification error:'' w1
         | Inr notificationId \<Rightarrow>
             insert_communication e
               \<lparr> comm_tourist_id = alert_tourist_id alert,
                 comm_alert_id = alert_id alert,
                 communication_type = ''push_notification'',
                 recipient_identifier = ''local_authorities'',
                 message_content = alert_message alert,
                 comm_status = ''sent'' \<rparr>
               (w1\<lparr> local_notifications := local_notifications w1 @
                       [\<lparr> notification_identifier = notificationId,
                          content_title = ''Emergency Alert Sent'',
                          content_body =
                            ''Authorities and emergency contacts have been notified of your emergency.'',
                          content_sound = True,
                          content_priority = Android_HIGH,
                          categoryIdentifier = None,
                          content_data = Undefined \<rparr>] \<rparr>))"

definition logEmergencyCommunication ::
  "env \<Rightarrow> string \<Rightarrow> nat option \<Rightarrow> EmergencyAlert \<Rightarrow> world \<Rightarrow> world" where
  "logEmergencyCommunication e tid alertId alert w =
     insert_communication e
       \<lparr> comm_tourist_id = tid,
         comm_alert_id = alertId,
         communication_type = ''emergency_alert'',
         recipient_identifier = ''system'',
         message_content =
           ''Emergency alert triggered: '' @ alert_title alert @ '' - '' @ alert_message alert,
         comm_status = ''processed'' \<rparr> w"

text \<open>
  The body of \<^verbatim>\<open>triggerPanicAlert\<close> from the null check on, for the value bound to
  \<^verbatim>\<open>location\<close>. The object literal \<^verbatim>\<open>emergencyAlert\<close> reads
  \<^verbatim>\<open>location.coords.latitude\<close> and \<^verbatim>\<open>location.coords.longitude\<close>, twice each (for
  the two coordinates and again for the message); an error in any of the reads, like every
  other error inside the \<^verbatim>\<open>try\<close> block, is logged and thrown again.
\<close>

definition emergencyAlert_of ::
  "env \<Rightarrow> string \<Rightarrow> alert_type \<Rightarrow> js_value \<Rightarrow> js_error + EmergencyAlert" where
  "emergencyAlert_of e tid alertType location =
     and_then (js_get location ''coords'') (\<lambda>c1.
     and_then (js_get c1 ''latitude'') (\<lambda>lat.
     and_then (js_get location ''coords'') (\<lambda>c2.
     and_then (js_get c2 ''longitude'') (\<lambda>lng.
     and_then (js_get location ''coords'') (\<lambda>c3.
     and_then (js_get c3 ''latitude'') (\<lambda>lat'.
     and_then (js_get location ''coords'') (\<lambda>c4.
     and_then (js_get c4 ''longitude'') (\<lambda>lng'.
     and_then (getAlertMessage e alertType lat' lng') (\<lambda>message.
       Inr \<lparr> alert_id = None,
             alert_tourist_id = tid,
             alert_kind = alertType,
             alert_latitude = num_of lat,
             alert_longitude = num_of lng,
             alert_title = getAlertTitle alertType,
             alert_message = message,
             alert_severity = Sev_critical,
             alert_priority = 1,
             status = Active,
             resolved_at = None,
             resolution_notes = None \<rparr>)))))))))"

definition triggerPanicAlert_from ::
  "env \<Rightarrow> js_value \<Rightarrow> string \<Rightarrow> alert_type \<Rightarrow> world \<Rightarrow> (js_error + EmergencyAlert) \<times> world" where
  "triggerPanicAlert_from e location tid alertType w =
     (if \<not> truthy location
      then (Inl (Error ''Unable to get current location''), console_log ''Panic alert error:'' w)
      else
        (case emergencyAlert_of e tid alertType location of
           Inl error \<Rightarrow> (Inl error, console_log ''Panic alert error:'' w)
         | Inr emergencyAlert \<Rightarrow>
             (case db_error e ''alerts'' Insert of
                Some alertError \<Rightarrow> (Inl alertError, console_log ''Panic alert error:'' w)
              | None \<Rightarrow>
                  (let alertData = emergencyAlert
                                     \<lparr> alert_id := Some (fresh_id (map alert_id (alerts w))) \<rparr>;
                       w1 = w\<lparr> alerts := alerts w @ [alertData] \<rparr>;
                       w2 = (case select_single
                                    (db_select e ''tourists''
                                       (filter (\<lambda>t. tourist_id t = tid) (tourists w1))) of
                               Inl touristError \<Rightarrow> console_log ''Tourist data error:'' w1
                             | Inr touristRow \<Rightarrow>
                                 notifyEmergencyContacts e touristRow emergencyAlert w1);
                       w3 = notifyAuthorities e emergencyAlert w2;
                       w4 = logEmergencyCommunication e tid (alert_id alertData) emergencyAlert w3
                   in (Inr alertData, w4)))))"

text \<open>
  \<^verbatim>\<open>triggerPanicAlert\<close> itself: \<^verbatim>\<open>location\<close> is what \<^verbatim>\<open>getCurrentLocation\<close>,
  imported from \<^verbatim>\<open>./location\<close>, returns.
\<close>

definition triggerPanicAlert ::
  "env \<Rightarrow> string \<Rightarrow> alert_type \<Rightarrow> world \<Rightarrow> (js_error + EmergencyAlert) \<times> world" where
  "triggerPanicAlert e tid alertType w =
     triggerPanicAlert_from e (location_value (getCurrentLocation (position e))) tid alertType w"

definition resolveEmergencyAlert :: "env \<Rightarrow> nat \<Rightarrow> string option \<Rightarrow> world \<Rightarrow> bool \<times> world" where
  "resolveEmergencyAlert e alertId resolutionNotes w =
     (case db_error e ''alerts'' Update of
        Some error \<Rightarrow> (False, console_log ''Resolve alert error:'' w)
      | None \<Rightarrow>
          (True,
           w\<lparr> alerts :=
                map (\<lambda>a. if alert_id a = Some alertId
                          then a\<lparr> status := Resolved, resolved_at := Some (now e),
                                  resolution_notes := resolutionNotes \<rparr>
                          else a) (alerts w) \<rparr>))"

definition acknowledgeEmergencyAlert :: "env \<Rightarrow> nat \<Rightarrow> world \<Rightarrow> bool \<times> world" where
  "acknowledgeEmergencyAlert e alertId w =
     (case db_error e ''alerts'' Update of
        Some error \<Rightarrow> (False, console_log ''Acknowledge alert error:'' w)
      | None \<Rightarrow>
          (True,
           w\<lparr> alerts :=
                map (\<lambda>a. if alert_id a = Some alertId then a\<lparr> status := Acknowledged \<rparr> else a)
                    (alerts w) \<rparr>))"

section \<open>The services as a transition system\<close>

text \<open>
  One event is one call of a service function or one run of a registered callback,
  together with what it meets outside the code. A run is a sequence of events.
\<close>

datatype event =
    Register RegistrationForm
  | StartTracking string
  | StopTracking
  | ForegroundFix string LocationObject
  | BackgroundFix "js_error option" "LocationObject list option"
  | WatcherFix string LocationObject
  | RefreshLocation
  | PanicAlert string alert_type
  | GeofenceAlert string string string action
  | HazardAlert string string string string number
  | WeatherAlert string string string string
  | ResolveAlert nat "string option"
  | AcknowledgeAlert nat
  | MarkRead nat

fun step :: "env \<Rightarrow> event \<Rightarrow> world \<Rightarrow> world" where
  "step e (Register f) w = handleRegister e f w"
| "step e (StartTracking tid) w = snd (startLocationTracking e tid w)"
| "step e StopTracking w = stopLocationTracking e w"
| "step e (ForegroundFix tid location) w = watchPosition_callback e tid location w"
| "step e (BackgroundFix error data) w = background_location_task e error data w"
| "step e (WatcherFix tid location) w = location_watch_callback e tid location w"
| "step e RefreshLocation w =
     w\<lparr> tracking := snd (tracking_getCurrentLocation (position e) (tracking w)) \<rparr>"
| "step e (PanicAlert tid alertType) w = snd (triggerPanicAlert e tid alertType w)"
| "step e (GeofenceAlert tid geofenceName geofenceType act) w =
     snd (createGeofenceAlert e tid geofenceName geofenceType act w)"
| "step e (HazardAlert tid hazardTitle hazardType sev distance) w =
     snd (createHazardAlert e tid hazardTitle hazardType sev distance w)"
| "step e (WeatherAlert tid weatherType sev description) w =
     snd (createWeatherAlert e tid weatherType sev description w)"
| "step e (ResolveAlert alertId notes) w = snd (resolveEmergencyAlert e alertId notes w)"
| "step e (AcknowledgeAlert alertId) w = snd (acknowledgeEmergencyAlert e alertId w)"
| "step e (MarkRead notificationId) w = snd (markNotificationAsRead e notificationId w)"

fun run :: "(env \<times> event) list \<Rightarrow> world \<Rightarrow> world" where
  "run [] w = w"
| "run ((e, ev) # rest) w = run rest (step e ev w)"

text \<open>The events that process a location fix.\<close>

fun is_fix :: "event \<Rightarrow> bool" where
  "is_fix (ForegroundFix tid location) = True"
| "is_fix (BackgroundFix error data) = True"
| "is_fix (WatcherFix tid location) = True"
| "is_fix ev = False"

text \<open>Everything alert-like the services can emit.\<close>

definition alert_output ::
  "world \<Rightarrow> EmergencyAlert list \<times> NotificationData list \<times> LocalNotification list \<times> Communication list" where
  "alert_output w = (alerts w, notifications w, local_notifications w, communications w)"

definition score_in_range :: "world \<Rightarrow> bool" where
  "score_in_range w = list_all (\<lambda>t. 0 \<le> safety_score t \<and> safety_score t \<le> 100) (tourists w)"

definition score_initial :: "world \<Rightarrow> bool" where
  "score_initial w = list_all (\<lambda>t. safety_score t = 50) (tourists w)"

section \<open>Verified properties\<close>

text \<open>
  C8. The configured safety-score weights (location risk 0.30, weather 0.20, group size
  0.20, time of day 0.15, route deviation 0.15) sum exactly to 1.
\<close>

theorem weights_sum_to_one:
  "map fst tourist_safety_score_weights =
     [''location_risk'', ''weather'', ''group_size'', ''time_of_day'', ''route_deviation'']
   \<and> sum_list (map snd tourist_safety_score_weights) = 1"
  by (simp add: tourist_safety_score_weights_def)

text \<open>
  C9. When the position request fails, the tracking service's \<^verbatim>\<open>getCurrentLocation\<close>
  does not reject: it resolves with the cached last-known location (null when nothing is
  cached) and leaves the cache as it was. When the request succeeds it stores the fresh
  location in the cache and resolves with it, so that \<^verbatim>\<open>getLastKnownLocation\<close> then
  returns that location.
\<close>

theorem tracking_getCurrentLocation_cache:
  "tracking_getCurrentLocation (Inl e) s = (Inr (lastLocation s), s)
   \<and> tracking_getCurrentLocation (Inl e) trackingState = (Inr None, trackingState)
   \<and> fst (tracking_getCurrentLocation (Inr loc) s) = Inr (Some loc)
   \<and> getLastKnownLocation (snd (tracking_getCurrentLocation (Inr loc) s)) = Some loc
   \<and> fst (tracking_getCurrentLocation (Inl e)
            (snd (tracking_getCurrentLocation (Inr loc) s))) = Inr (Some loc)
   \<and> (\<exists>v. fst (tracking_getCurrentLocation r s) = Inr v)"
  by (cases r)
     (simp_all add: tracking_getCurrentLocation_def getLastKnownLocation_def trackingState_def)

end
